theory Spec2Isabelle
  imports Complex_Main
begin

section \<open>Numbers, errors and Python indexing\<close>

text \<open>
  The agent of \<^verbatim>\<open>train_agent.py\<close> computes with floating-point numbers. Rounding is
  not modelled: a finite number is a \<^typ>\<open>real\<close>. The quantities that the code tests
  for NaN or for finiteness (environment observations, log-probabilities, importance
  ratios) and the means of possibly empty tensors range over \<open>fval\<close>, which adds the two
  infinities and NaN to the finite numbers.
\<close>

datatype fval = Fin real | PInf | NInf | NaN

fun is_finite :: "fval \<Rightarrow> bool" where
  "is_finite (Fin x) = True"
| "is_finite PInf = False"
| "is_finite NInf = False"
| "is_finite NaN = False"

fun is_nan :: "fval \<Rightarrow> bool" where
  "is_nan NaN = True"
| "is_nan (Fin x) = False"
| "is_nan PInf = False"
| "is_nan NInf = False"

fun the_fin :: "fval \<Rightarrow> real" where
  "the_fin (Fin x) = x"
| "the_fin PInf = 0"
| "the_fin NInf = 0"
| "the_fin NaN = 0"

fun fneg :: "fval \<Rightarrow> fval" where
  "fneg (Fin x) = Fin (- x)"
| "fneg PInf = NInf"
| "fneg NInf = PInf"
| "fneg NaN = NaN"

fun fadd :: "fval \<Rightarrow> fval \<Rightarrow> fval" where
  "fadd (Fin x) (Fin y) = Fin (x + y)"
| "fadd NaN b = NaN"
| "fadd a NaN = NaN"
| "fadd PInf NInf = NaN"
| "fadd NInf PInf = NaN"
| "fadd PInf b = PInf"
| "fadd a PInf = PInf"
| "fadd NInf b = NInf"
| "fadd a NInf = NInf"

definition fsub :: "fval \<Rightarrow> fval \<Rightarrow> fval" where
  "fsub a b = fadd a (fneg b)"

fun fsgn_mult :: "bool \<Rightarrow> fval" where
  "fsgn_mult True = PInf"
| "fsgn_mult False = NInf"

fun fmul :: "fval \<Rightarrow> fval \<Rightarrow> fval" where
  "fmul (Fin x) (Fin y) = Fin (x * y)"
| "fmul NaN b = NaN"
| "fmul a NaN = NaN"
| "fmul (Fin x) PInf = (if x = 0 then NaN else fsgn_mult (0 < x))"
| "fmul (Fin x) NInf = (if x = 0 then NaN else fsgn_mult (x < 0))"
| "fmul PInf (Fin y) = (if y = 0 then NaN else fsgn_mult (0 < y))"
| "fmul NInf (Fin y) = (if y = 0 then NaN else fsgn_mult (y < 0))"
| "fmul PInf PInf = PInf"
| "fmul NInf NInf = PInf"
| "fmul PInf NInf = NInf"
| "fmul NInf PInf = NInf"

fun fexp :: "fval \<Rightarrow> fval" where
  "fexp (Fin x) = Fin (exp x)"
| "fexp PInf = PInf"
| "fexp NInf = Fin 0"
| "fexp NaN = NaN"

text \<open>
  The exceptions the modelled code can raise. \<open>NumericsError\<close> is the
  \<^verbatim>\<open>InvalidArgumentError\<close> of \<^verbatim>\<open>tf.debugging.check_numerics\<close>, with its message;
  \<open>ShapeError\<close> is the same TensorFlow exception raised for operands that do not
  broadcast.
\<close>

datatype error =
    IndexError
  | ZeroDivisionError
  | ValueError
  | UnboundLocalError
  | NumericsError string
  | ShapeError

definition bind_res :: "error + 'a \<Rightarrow> ('a \<Rightarrow> error + 'b) \<Rightarrow> error + 'b" where
  "bind_res m f = (case m of Inl e \<Rightarrow> Inl e | Inr x \<Rightarrow> f x)"

text \<open>Python list indexing: a negative index counts from the end, out of range raises.\<close>

definition py_index :: "'a list \<Rightarrow> int \<Rightarrow> error + 'a" where
  "py_index xs i =
     (if 0 \<le> i \<and> i < int (length xs) then Inr (xs ! nat i)
      else if i < 0 \<and> - int (length xs) \<le> i then Inr (xs ! nat (int (length xs) + i))
      else Inl IndexError)"

section \<open>The agent's hyper-parameters\<close>

text \<open>The fields that \<^verbatim>\<open>PPOAgent.__init__\<close> sets and the learning code reads.\<close>

record agent =
  gamma :: real
  epsilon :: real
  actor_lr :: real
  critic_lr :: real
  gaelam :: real
  min_entropy :: real
  max_entropy :: real

definition init_agent :: agent where
  "init_agent =
     \<lparr> gamma = 99 / 100, epsilon = 2 / 10, actor_lr = 3 / 10000, critic_lr = 3 / 10000,
       gaelam = 95 / 100, min_entropy = 1 / 10000, max_entropy = 1 / 100 \<rparr>"

section \<open>Entropy-coefficient schedule\<close>

text \<open>\<^verbatim>\<open>np.clip(a, a_min, a_max)\<close> is \<^verbatim>\<open>minimum(a_max, maximum(a, a_min))\<close>.\<close>

definition np_clip :: "real \<Rightarrow> real \<Rightarrow> real \<Rightarrow> real" where
  "np_clip a a_min a_max = min a_max (max a a_min)"

text \<open>
  \<^verbatim>\<open>update_entropy_coef(self, episode, max_episodes)\<close>. Both arguments are Python
  integers, \<^verbatim>\<open>/\<close> is true division and raises on a zero divisor. The final cast to
  \<^verbatim>\<open>np.float32\<close> is a rounding and is not modelled.
\<close>

definition update_entropy_coef :: "agent \<Rightarrow> int \<Rightarrow> int \<Rightarrow> error + real" where
  "update_entropy_coef self episode max_episodes =
     (if max_episodes = 0 then Inl ZeroDivisionError
      else
        let entropy_coef =
              max_entropy self
                - (max_entropy self - min_entropy self) * (real_of_int episode / real_of_int max_episodes)
        in Inr (np_clip entropy_coef (min_entropy self) (max_entropy self)))"

section \<open>Generalised advantage estimation\<close>

text \<open>
  The state of the reverse scan of \<^verbatim>\<open>compute_advantages\<close>: the arrays
  \<^verbatim>\<open>advantages\<close> and \<^verbatim>\<open>returns\<close> and the scalar \<^verbatim>\<open>last_gae\<close>. The arrays are
  created by \<^verbatim>\<open>np.zeros_like(rewards)\<close>; the rewards are taken to be floating-point
  numbers, so the arrays hold what is stored in them.
\<close>

type_synonym gae_state = "real list \<times> real list \<times> real"

text \<open>Lines 146 to 152: the choice of \<^verbatim>\<open>next_value\<close> and \<^verbatim>\<open>next_done\<close> at step \<open>t\<close>.\<close>

definition gae_next :: "real list \<Rightarrow> real list \<Rightarrow> bool list \<Rightarrow> nat \<Rightarrow> error + (real \<times> bool)" where
  "gae_next rewards values dones t =
     (if int t = int (length rewards) - 1
      then bind_res (py_index values (- 1)) (\<lambda>next_value.
           bind_res (py_index dones (int t)) (\<lambda>next_done.
           Inr (next_value, next_done)))
      else bind_res (py_index values (int t + 1)) (\<lambda>next_value.
           bind_res (py_index dones (int t + 1)) (\<lambda>next_done.
           Inr (next_value, next_done))))"

text \<open>Line 155. A Python \<^verbatim>\<open>bool\<close> counts as 0 or 1 in \<^verbatim>\<open>1 - next_done\<close>.\<close>

definition td_delta :: "agent \<Rightarrow> real \<Rightarrow> real \<Rightarrow> bool \<Rightarrow> real \<Rightarrow> real" where
  "td_delta self r_t next_value next_done v_t =
     r_t + gamma self * next_value * (1 - of_bool next_done) - v_t"

text \<open>One iteration of the loop body, lines 146 to 159.\<close>

definition gae_step ::
  "agent \<Rightarrow> real list \<Rightarrow> real list \<Rightarrow> bool list \<Rightarrow> nat \<Rightarrow> gae_state \<Rightarrow> error + gae_state" where
  "gae_step self rewards values dones t st =
     (case st of (advantages, returns, last_gae) \<Rightarrow>
        bind_res (gae_next rewards values dones t) (\<lambda>(next_value, next_done).
        bind_res (py_index rewards (int t)) (\<lambda>r_t.
        bind_res (py_index values (int t)) (\<lambda>v_t.
          let delta = td_delta self r_t next_value next_done v_t;
              last_gae' = delta + gamma self * gaelam self * (1 - of_bool next_done) * last_gae;
              advantages' = advantages[t := last_gae'];
              returns' = returns[t := advantages' ! t + v_t]
          in Inr (advantages', returns', last_gae')))))"

text \<open>The loop \<^verbatim>\<open>for t in reversed(range(len(rewards)))\<close>, over the list of its indices.\<close>

fun gae_loop ::
  "agent \<Rightarrow> real list \<Rightarrow> real list \<Rightarrow> bool list \<Rightarrow> nat list \<Rightarrow> gae_state \<Rightarrow> error + gae_state" where
  "gae_loop self rewards values dones [] st = Inr st"
| "gae_loop self rewards values dones (t # ts) st =
     bind_res (gae_step self rewards values dones t st) (gae_loop self rewards values dones ts)"

text \<open>Lines 140 to 159: the state after the loop, before the normalisation.\<close>

definition gae_scan :: "agent \<Rightarrow> real list \<Rightarrow> real list \<Rightarrow> bool list \<Rightarrow> error + gae_state" where
  "gae_scan self rewards values dones =
     (let advantages = replicate (length rewards) 0;
          returns = replicate (length rewards) 0;
          last_gae = 0
      in bind_res (py_index values (- 1)) (\<lambda>next_value.
         gae_loop self rewards values dones (rev [0..<length rewards])
           (advantages, returns, last_gae)))"

text \<open>
  \<^verbatim>\<open>ndarray.mean\<close> and \<^verbatim>\<open>ndarray.std\<close> (the population standard deviation). On an
  empty array NumPy gives NaN with a warning; \<open>normalize\<close> below maps over the array and
  so returns the empty array there whatever the mean is.
\<close>

definition np_mean :: "real list \<Rightarrow> real" where
  "np_mean xs = sum_list xs / real (length xs)"

definition np_std :: "real list \<Rightarrow> real" where
  "np_std xs = sqrt (np_mean (map (\<lambda>x. \<bar>x - np_mean xs\<bar> ^ 2) xs))"

text \<open>Line 162.\<close>

definition normalize :: "real list \<Rightarrow> real list" where
  "normalize advantages =
     map (\<lambda>a. (a - np_mean advantages) / (np_std advantages + 1 / 10 ^ 8)) advantages"

text \<open>\<^verbatim>\<open>compute_advantages(self, rewards, values, dones)\<close>; the logging is left out.\<close>

definition compute_advantages ::
  "agent \<Rightarrow> real list \<Rightarrow> real list \<Rightarrow> bool list \<Rightarrow> error + (real list \<times> real list)" where
  "compute_advantages self rewards values dones =
     bind_res (gae_scan self rewards values dones) (\<lambda>(advantages, returns, last_gae).
       Inr (normalize advantages, returns))"

section \<open>Tensors and the collaborators\<close>

text \<open>
  A tensor of shape \<open>(n,)\<close> is a list, one of shape \<open>(m, k)\<close> a list of \<open>m\<close> rows.
  An elementwise operation on two tensors of shape \<open>(n,)\<close> and \<open>(m,)\<close> broadcasts a
  tensor of length 1 and raises on any other mismatch.
\<close>

definition tf_elementwise :: "('a \<Rightarrow> 'b \<Rightarrow> 'c) \<Rightarrow> 'a list \<Rightarrow> 'b list \<Rightarrow> error + 'c list" where
  "tf_elementwise f xs ys =
     (if length xs = length ys then Inr (map2 f xs ys)
      else if length xs = 1 then Inr (map (f (hd xs)) ys)
      else if length ys = 1 then Inr (map (\<lambda>x. f x (hd ys)) xs)
      else Inl ShapeError)"

fun map_res :: "('a \<Rightarrow> error + 'b) \<Rightarrow> 'a list \<Rightarrow> error + 'b list" where
  "map_res f [] = Inr []"
| "map_res f (x # xs) =
     bind_res (f x) (\<lambda>y. bind_res (map_res f xs) (\<lambda>ys. Inr (y # ys)))"

text \<open>
  \<^verbatim>\<open>returns - values\<close> with \<^verbatim>\<open>returns\<close> of shape \<open>(n,)\<close> and \<^verbatim>\<open>values\<close> of shape
  \<open>(m, k)\<close>: the first operand is read as one row and meets every row of the second, so
  the result has \<open>m\<close> rows.
\<close>

definition tf_sub_vector_matrix :: "real list \<Rightarrow> real list list \<Rightarrow> error + real list list" where
  "tf_sub_vector_matrix xs rows = map_res (\<lambda>row. tf_elementwise (\<lambda>x v. x - v) xs row) rows"

text \<open>\<^verbatim>\<open>tf.reduce_mean\<close> over all elements; the mean of no elements is NaN.\<close>

definition reduce_mean :: "real list \<Rightarrow> fval" where
  "reduce_mean xs = (if xs = [] then NaN else Fin (sum_list xs / real (length xs)))"

text \<open>\<^verbatim>\<open>tf.clip_by_value(t, lo, hi)\<close> is \<^verbatim>\<open>minimum(maximum(t, lo), hi)\<close>.\<close>

definition clip_by_value :: "real list \<Rightarrow> real \<Rightarrow> real \<Rightarrow> real list" where
  "clip_by_value t lo hi = map (\<lambda>x. min (max x lo) hi) t"

text \<open>
  \<^verbatim>\<open>tf.debugging.check_numerics(tensor, message)\<close> returns its tensor when every element
  is finite and raises otherwise.
\<close>

definition check_numerics :: "fval list \<Rightarrow> string \<Rightarrow> error + fval list" where
  "check_numerics tensor message =
     (if list_all is_finite tensor then Inr tensor else Inl (NumericsError message))"

text \<open>An observation is a vector of numbers; \<^verbatim>\<open>np.isnan(next_state).any()\<close> reads it.\<close>

type_synonym obs = "fval list"

text \<open>
  The environment, the two networks and their optimisers are not part of the file. They
  are parameters of the model: \<open>'w\<close> is everything they own (the simulator's state, the
  weights, the sampler's random state, the optimisers' moments) and \<open>'a\<close> is the type of
  actions.
  \<^item> \<open>env_reset\<close> and \<open>env_step\<close> are \<^verbatim>\<open>env.reset()\<close> and \<^verbatim>\<open>env.step(action)\<close>, the
    latter giving the next state, the reward and the done flag;
  \<^item> \<open>actor_sample\<close> is the call of the actor inside \<^verbatim>\<open>get_action\<close>, giving the
    action, its log-probability and the raw action;
  \<^item> \<open>actor_eval\<close> is \<^verbatim>\<open>self.actor(states, training=True, raw_actions=raw_actions)\<close>,
    giving the log-probabilities and the entropies, each of shape \<open>(batch,)\<close>;
  \<^item> \<open>critic_call\<close> is \<^verbatim>\<open>self.critic.call(states)\<close>, a tensor of shape \<open>(batch, 1)\<close> by
    the comment of line 202 and the indexing \<^verbatim>\<open>[0, 0]\<close> of lines 236 and 260;
  \<^item> \<open>actor_apply_gradients\<close> and \<open>critic_apply_gradients\<close> are the pairs of
    \<^verbatim>\<open>tape.gradient\<close> and \<^verbatim>\<open>apply_gradients\<close>: they receive the loss as a function
    of the parameters, which is what the tape records.
\<close>

record ('w, 'a) collab =
  env_reset :: "'w \<Rightarrow> obs \<times> 'w"
  env_step :: "'w \<Rightarrow> 'a \<Rightarrow> (obs \<times> real \<times> bool) \<times> 'w"
  actor_sample :: "'w \<Rightarrow> obs \<Rightarrow> ('a \<times> fval \<times> 'a) \<times> 'w"
  actor_eval :: "'w \<Rightarrow> obs list \<Rightarrow> 'a list \<Rightarrow> fval list \<times> real list"
  critic_call :: "'w \<Rightarrow> obs list \<Rightarrow> real list list"
  actor_apply_gradients :: "('w \<Rightarrow> error + fval) \<Rightarrow> 'w \<Rightarrow> 'w"
  critic_apply_gradients :: "('w \<Rightarrow> error + fval) \<Rightarrow> 'w \<Rightarrow> 'w"

section \<open>The update of the policy and of the value function\<close>

text \<open>Line 185, \<^verbatim>\<open>tf.exp(log_probs - log_probs_old)\<close>.\<close>

definition importance_ratios :: "fval list \<Rightarrow> fval list \<Rightarrow> error + fval list" where
  "importance_ratios log_probs log_probs_old =
     tf_elementwise (\<lambda>new old. fexp (fsub new old)) log_probs log_probs_old"

text \<open>
  Lines 182 to 194, the body of the first tape, on what the actor returned: the pair of
  \<^verbatim>\<open>actor_loss\<close> (which line 191 prints) and \<^verbatim>\<open>actor_loss_full\<close>. After the second
  check the ratios are finite and are read as reals.
\<close>

definition actor_losses ::
  "agent \<Rightarrow> fval list \<times> real list \<Rightarrow> real list \<Rightarrow> fval list \<Rightarrow> real \<Rightarrow> error + (fval \<times> fval)" where
  "actor_losses self out advantages log_probs_old entropy_coef =
     (case out of (log_probs, entropy) \<Rightarrow>
        bind_res (check_numerics log_probs ''log_probs contain NaN'') (\<lambda>log_probs.
        bind_res (importance_ratios log_probs log_probs_old) (\<lambda>ratios.
        bind_res (check_numerics ratios ''ratios contain NaN'') (\<lambda>ratios.
          let ratios = map the_fin ratios;
              clipped_ratios = clip_by_value ratios (1 - epsilon self) (1 + epsilon self)
          in
        bind_res (tf_elementwise (\<lambda>r a. r * a) ratios advantages) (\<lambda>surrogate1.
        bind_res (tf_elementwise (\<lambda>r a. r * a) clipped_ratios advantages) (\<lambda>surrogate2.
        bind_res (tf_elementwise min surrogate1 surrogate2) (\<lambda>smaller.
          let actor_loss = fneg (reduce_mean smaller);
              entropy_bonus = reduce_mean entropy;
              actor_loss_full = fsub actor_loss (fmul (Fin entropy_coef) entropy_bonus)
          in Inr (actor_loss, actor_loss_full))))))))"

text \<open>Lines 202 and 203, the body of the second tape, on what the critic returned.\<close>

definition critic_loss :: "real list \<Rightarrow> real list list \<Rightarrow> error + fval" where
  "critic_loss returns values =
     bind_res (tf_sub_vector_matrix returns values) (\<lambda>diff.
       Inr (reduce_mean (map (\<lambda>x. x * x) (concat diff))))"

text \<open>
  \<^verbatim>\<open>update(self, states, actions, advantages, returns, log_probs_old, entropy_coef,
  raw_actions)\<close>. An exception of the forward pass leaves before any gradient step.
\<close>

definition update ::
  "('w, 'a) collab \<Rightarrow> agent \<Rightarrow> 'w \<Rightarrow> obs list \<Rightarrow> 'a list \<Rightarrow> real list \<Rightarrow> real list \<Rightarrow> fval list
     \<Rightarrow> real \<Rightarrow> 'a list \<Rightarrow> error + 'w" where
  "update c self w states actions advantages returns log_probs_old entropy_coef raw_actions =
     bind_res (actor_losses self (actor_eval c w states raw_actions) advantages log_probs_old
                 entropy_coef) (\<lambda>(actor_loss, actor_loss_full).
       let w1 = actor_apply_gradients c
                  (\<lambda>w'. map_sum id snd
                     (actor_losses self (actor_eval c w' states raw_actions) advantages
                        log_probs_old entropy_coef)) w
       in
     bind_res (critic_loss returns (critic_call c w1 states)) (\<lambda>loss.
       Inr (critic_apply_gradients c (\<lambda>w'. critic_loss returns (critic_call c w' states)) w1)))"

section \<open>The training loop\<close>

text \<open>
  The local variables of one episode of \<^verbatim>\<open>train\<close> (lines 216 to 222), with the
  collaborators' state. \<^verbatim>\<open>next_state\<close> is unbound until the first step has run.
\<close>

record ('w, 'a) episode =
  ep_world :: 'w
  ep_state :: obs
  ep_next_state :: "obs option"
  ep_done :: bool
  ep_episode_reward :: real
  ep_states :: "obs list"
  ep_actions :: "'a list"
  ep_rewards :: "real list"
  ep_dones :: "bool list"
  ep_probs :: "fval list"
  ep_values_learned :: "real list"
  ep_raw_actions :: "'a list"

definition init_episode :: "obs \<times> 'w \<Rightarrow> ('w, 'a) episode" where
  "init_episode r =
     \<lparr> ep_world = snd r, ep_state = fst r, ep_next_state = None, ep_done = False,
       ep_episode_reward = 0, ep_states = [], ep_actions = [], ep_rewards = [], ep_dones = [],
       ep_probs = [], ep_values_learned = [], ep_raw_actions = [] \<rparr>"

text \<open>\<^verbatim>\<open>float(self.critic.call(state)[0, 0].numpy())\<close>, on a batch of the one state.\<close>

definition critic_scalar :: "('w, 'a) collab \<Rightarrow> 'w \<Rightarrow> obs \<Rightarrow> error + real" where
  "critic_scalar c w s =
     bind_res (py_index (critic_call c w [s]) 0) (\<lambda>row. py_index row 0)"

text \<open>
  One pass through the body of \<^verbatim>\<open>while not done\<close>, lines 225 to 253. The result says
  whether the pass left through \<^verbatim>\<open>break\<close>. The reshaping of the states and the logging
  are left out.
\<close>

definition rollout_step :: "('w, 'a) collab \<Rightarrow> ('w, 'a) episode \<Rightarrow> error + (bool \<times> ('w, 'a) episode)" where
  "rollout_step c e =
     (case actor_sample c (ep_world e) (ep_state e) of ((action, log_prob, raw_action), w1) \<Rightarrow>
      case env_step c w1 action of ((next_state, reward, done), w2) \<Rightarrow>
        let e1 = e\<lparr>ep_world := w2, ep_next_state := Some next_state, ep_done := done\<rparr> in
        if list_ex is_nan next_state then Inr (True, e1)
        else
          bind_res (critic_scalar c w2 (ep_state e)) (\<lambda>value_learned.
            Inr (False,
              e1\<lparr>ep_states := ep_states e @ [ep_state e],
                 ep_actions := ep_actions e @ [action],
                 ep_rewards := ep_rewards e @ [reward],
                 ep_dones := ep_dones e @ [done],
                 ep_probs := ep_probs e @ [log_prob],
                 ep_values_learned := ep_values_learned e @ [value_learned],
                 ep_raw_actions := ep_raw_actions e @ [raw_action],
                 ep_state := next_state,
                 ep_episode_reward := ep_episode_reward e + reward\<rparr>)))"

text \<open>The loop of lines 224 to 253. It returns when the environment ends the episode,
  when a pass leaves through \<^verbatim>\<open>break\<close> or raises; it may run for ever.\<close>

partial_function (option) rollout_loop ::
  "('w, 'a) collab \<Rightarrow> ('w, 'a) episode \<Rightarrow> (error + ('w, 'a) episode) option" where
  "rollout_loop c e =
     (if ep_done e then Some (Inr e)
      else case rollout_step c e of
             Inl err \<Rightarrow> Some (Inl err)
           | Inr (left, e') \<Rightarrow> if left then Some (Inr e') else rollout_loop c e')"

text \<open>\<^verbatim>\<open>np.vstack\<close> of a list of rows; it raises on the empty list.\<close>

definition np_vstack :: "obs list \<Rightarrow> error + obs list" where
  "np_vstack rows = (if rows = [] then Inl ValueError else Inr rows)"

text \<open>
  Lines 260 to 274, after the loop: the bootstrap value, the advantages, the entropy
  coefficient and the update. The bookkeeping of the rewards, the plot and the printing
  that follow change nothing the next episode reads.
\<close>

definition finish_episode ::
  "('w, 'a) collab \<Rightarrow> agent \<Rightarrow> int \<Rightarrow> int \<Rightarrow> ('w, 'a) episode \<Rightarrow> error + 'w" where
  "finish_episode c self episode max_episodes e =
     (case ep_next_state e of
        None \<Rightarrow> Inl UnboundLocalError
      | Some next_state \<Rightarrow>
          bind_res (critic_scalar c (ep_world e) next_state) (\<lambda>next_value_learned.
            let values_learned = ep_values_learned e @ [next_value_learned] in
          bind_res (compute_advantages self (ep_rewards e) values_learned (ep_dones e))
            (\<lambda>(advantages, returns).
          bind_res (update_entropy_coef self episode max_episodes) (\<lambda>entropy_coef.
          bind_res (np_vstack (ep_states e)) (\<lambda>states.
            update c self (ep_world e) states (ep_actions e) advantages returns (ep_probs e)
              entropy_coef (ep_raw_actions e))))))"




text \<open>
  The episode after \<open>n\<close> passes of the loop, none of which left through \<^verbatim>\<open>break\<close> or
  raised, each begun with \<^verbatim>\<open>done\<close> false.
\<close>

fun after_steps :: "nat \<Rightarrow> ('w, 'a) collab \<Rightarrow> ('w, 'a) episode \<Rightarrow> ('w, 'a) episode option" where
  "after_steps 0 c e = Some e"
| "after_steps (Suc n) c e =
     (if ep_done e then None
      else case rollout_step c e of
             Inl err \<Rightarrow> None
           | Inr (left, e') \<Rightarrow> if left then None else after_steps n c e')"

section \<open>A scripted environment\<close>

text \<open>
  Collaborators for concrete runs: the environment answers its \<open>k\<close>-th step with the
  \<open>k\<close>-th entry of a script (and ends the episode past the script), the actor gives
  every action the log-probability \<open>lp\<close>, the critic sums the finite entries of a state,
  and the optimisers leave the parameters alone. The collaborators' state is the number
  of steps the environment has taken.
\<close>

definition script_collab :: "(obs \<times> real \<times> bool) list \<Rightarrow> fval \<Rightarrow> (nat, unit) collab" where
  "script_collab script lp =
     \<lparr> env_reset = (\<lambda>w. ([Fin 0], 0)),
       env_step = (\<lambda>w a. (if w < length script then script ! w else ([Fin 0], 0, True), Suc w)),
       actor_sample = (\<lambda>w s. (((), Fin 0, ()), w)),
       actor_eval = (\<lambda>w ss ras. (map (\<lambda>s. lp) ss, map (\<lambda>s. 0) ss)),
       critic_call = (\<lambda>w ss. map (\<lambda>s. [sum_list (map the_fin s)]) ss),
       actor_apply_gradients = (\<lambda>loss w. w),
       critic_apply_gradients = (\<lambda>loss w. w) \<rparr>"

text \<open>
  Three scripts: a NaN at the second step, an infinity at the first step of an episode
  that ends at the second, and a NaN at the first step. \<open>nan_run_first\<close> is the episode of
  the first script after its first pass, \<open>inf_run_final\<close> the episode of the second when its
  loop returns.
\<close>

definition nan_run :: "(nat, unit) collab" where
  "nan_run = script_collab [([Fin 1, Fin 2], 1, False), ([NaN, Fin 5], 1, False)] (Fin 0)"

definition nan_run_first :: "(nat, unit) episode" where
  "nan_run_first =
     \<lparr> ep_world = 1, ep_state = [Fin 1, Fin 2], ep_next_state = Some [Fin 1, Fin 2],
       ep_done = False, ep_episode_reward = 1, ep_states = [[Fin 0]], ep_actions = [()],
       ep_rewards = [1], ep_dones = [False], ep_probs = [Fin 0], ep_values_learned = [0],
       ep_raw_actions = [()] \<rparr>"

definition inf_run :: "(nat, unit) collab" where
  "inf_run = script_collab [([PInf], 1, False), ([Fin 3], 1, True)] (Fin 0)"


definition inf_run_final :: "(nat, unit) episode" where
  "inf_run_final =
     \<lparr> ep_world = 2, ep_state = [Fin 3], ep_next_state = Some [Fin 3],
       ep_done = True, ep_episode_reward = 2, ep_states = [[Fin 0], [PInf]], ep_actions = [(), ()],
       ep_rewards = [1, 1], ep_dones = [False, True], ep_probs = [Fin 0, Fin 0],
       ep_values_learned = [0, 0], ep_raw_actions = [(), ()] \<rparr>"

section \<open>Auxiliary notions of the proofs\<close>

text \<open>The index of the done flag that step \<open>t\<close> of a scan over \<open>T\<close> rewards reads.\<close>

definition nd_idx :: "nat \<Rightarrow> nat \<Rightarrow> nat" where
  "nd_idx T t = (if Suc t = T then t else Suc t)"

text \<open>The value the scan stores at step \<open>t\<close> when the running estimate is \<open>g\<close>.\<close>

definition gae_val :: "agent \<Rightarrow> real list \<Rightarrow> real list \<Rightarrow> bool list \<Rightarrow> nat \<Rightarrow> real \<Rightarrow> real" where
  "gae_val self rewards values dones t g =
     td_delta self (rewards ! t) (values ! Suc t) (dones ! nd_idx (length rewards) t) (values ! t)
       + gamma self * gaelam self * (1 - of_bool (dones ! nd_idx (length rewards) t)) * g"

text \<open>The buffers of an episode have one entry per recorded transition.\<close>

definition aligned :: "('w, 'a) episode \<Rightarrow> bool" where
  "aligned e \<longleftrightarrow>
     length (ep_values_learned e) = length (ep_rewards e)
     \<and> length (ep_dones e) = length (ep_rewards e)
     \<and> length (ep_states e) = length (ep_rewards e)
     \<and> length (ep_actions e) = length (ep_rewards e)
     \<and> length (ep_probs e) = length (ep_rewards e)
     \<and> length (ep_raw_actions e) = length (ep_rewards e)"

section \<open>Properties of indexing and of the result type\<close>

lemma bind_res_Inr [simp]: "bind_res (Inr x) f = f x"
  by (simp add: bind_res_def)

lemma bind_res_Inl [simp]: "bind_res (Inl e) f = Inl e"
  by (simp add: bind_res_def)

lemma py_index_nat: "i < length xs \<Longrightarrow> py_index xs (int i) = Inr (xs ! i)"
  by (simp add: py_index_def)

lemma py_index_succ: "Suc i < length xs \<Longrightarrow> py_index xs (int i + 1) = Inr (xs ! Suc i)"
  by (simp add: py_index_def nat_add_distrib)

lemma py_index_minus1: "xs \<noteq> [] \<Longrightarrow> py_index xs (- 1) = Inr (xs ! (length xs - 1))"
  by (cases xs) (simp_all add: py_index_def)

lemma py_index_minus1_empty: "py_index [] (- 1) = Inl IndexError"
  by (simp add: py_index_def)

lemma gae_next_ok:
  assumes "length rewards = T" "length values = Suc T" "length dones = T" "t < T"
  shows "gae_next rewards values dones t = Inr (values ! Suc t, dones ! nd_idx T t)"
proof (cases "Suc t = T")
  case True
  then have "int t = int (length rewards) - 1" using assms by auto
  moreover have "py_index values (- 1) = Inr (values ! T)"
  proof -
    have "values \<noteq> []" using assms by auto
    then show ?thesis using py_index_minus1 [of "values"] assms by simp
  qed
  moreover have "py_index dones (int t) = Inr (dones ! t)"
    using assms by (simp add: py_index_nat)
  ultimately show ?thesis using True by (simp add: gae_next_def nd_idx_def)
next
  case False
  then have "int t \<noteq> int (length rewards) - 1" using assms by auto
  moreover have "py_index values (int t + 1) = Inr (values ! Suc t)"
    using assms by (simp add: py_index_succ)
  moreover have "py_index dones (int t + 1) = Inr (dones ! Suc t)"
    using assms False by (simp add: py_index_succ)
  ultimately show ?thesis using False by (simp add: gae_next_def nd_idx_def)
qed

lemma gae_step_ok:
  assumes "length rewards = T" "length values = Suc T" "length dones = T" "t < T"
    and "length adv = T"
  shows "gae_step self rewards values dones t (adv, ret, g) =
           Inr (adv[t := gae_val self rewards values dones t g],
                ret[t := gae_val self rewards values dones t g + values ! t],
                gae_val self rewards values dones t g)"
  using assms
  by (simp add: gae_step_def gae_next_ok [OF assms(1-4)] py_index_nat gae_val_def Let_def)

lemma gae_loop_inv:
  assumes "length rewards = T" "length values = Suc T" "length dones = T"
  shows "k \<le> T \<Longrightarrow> length adv = T \<Longrightarrow> length ret = T \<Longrightarrow>
         \<exists>adv' ret' g'.
           gae_loop self rewards values dones (rev [0..<k]) (adv, ret, g) = Inr (adv', ret', g')
           \<and> length adv' = T \<and> length ret' = T
           \<and> (\<forall>j. k \<le> j \<longrightarrow> adv' ! j = adv ! j \<and> ret' ! j = ret ! j)
           \<and> (\<forall>j<k. adv' ! j = gae_val self rewards values dones j (if Suc j = k then g else adv' ! Suc j)
                    \<and> ret' ! j = adv' ! j + values ! j)"
proof (induction k arbitrary: adv ret g)
  case 0
  then show ?case by simp
next
  case (Suc k)
  let ?G = "gae_val self rewards values dones k g"
  have kT: "k < T" using Suc.prems by simp
  have step: "gae_step self rewards values dones k (adv, ret, g)
                = Inr (adv[k := ?G], ret[k := ?G + values ! k], ?G)"
    using gae_step_ok [OF assms kT] Suc.prems by simp
  obtain adv' ret' g' where
    loop: "gae_loop self rewards values dones (rev [0..<k]) (adv[k := ?G], ret[k := ?G + values ! k], ?G)
             = Inr (adv', ret', g')"
    and len: "length adv' = T" "length ret' = T"
    and keep: "\<forall>j. k \<le> j \<longrightarrow> adv' ! j = (adv[k := ?G]) ! j \<and> ret' ! j = (ret[k := ?G + values ! k]) ! j"
    and rec: "\<forall>j<k. adv' ! j = gae_val self rewards values dones j (if Suc j = k then ?G else adv' ! Suc j)
                    \<and> ret' ! j = adv' ! j + values ! j"
    using Suc.IH [of "adv[k := ?G]" "ret[k := ?G + values ! k]" ?G] Suc.prems kT by auto
  have atk: "adv' ! k = ?G" "ret' ! k = ?G + values ! k"
    using keep kT Suc.prems by auto
  have "gae_loop self rewards values dones (rev [0..<Suc k]) (adv, ret, g) = Inr (adv', ret', g')"
    using step loop by simp
  moreover have "\<forall>j. Suc k \<le> j \<longrightarrow> adv' ! j = adv ! j \<and> ret' ! j = ret ! j"
    using keep by auto
  moreover have "\<forall>j<Suc k. adv' ! j = gae_val self rewards values dones j (if Suc j = Suc k then g else adv' ! Suc j)
                    \<and> ret' ! j = adv' ! j + values ! j"
  proof (intro allI impI)
    fix j assume "j < Suc k"
    show "adv' ! j = gae_val self rewards values dones j (if Suc j = Suc k then g else adv' ! Suc j)
                    \<and> ret' ! j = adv' ! j + values ! j"
    proof (cases "j = k")
      case True
      then show ?thesis using atk by simp
    next
      case False
      then have "j < k" using \<open>j < Suc k\<close> by simp
      then show ?thesis using rec atk by auto
    qed
  qed
  ultimately show ?case using len by blast
qed

lemma gae_scan_ok:
  assumes "length rewards = T" "length values = Suc T" "length dones = T"
  shows "\<exists>raw ret g.
           gae_scan self rewards values dones = Inr (raw, ret, g)
           \<and> length raw = T \<and> length ret = T
           \<and> (\<forall>j<T. raw ! j = gae_val self rewards values dones j (if Suc j = T then 0 else raw ! Suc j)
                    \<and> ret ! j = raw ! j + values ! j)"
proof -
  have ne: "values \<noteq> []" using assms by auto
  obtain adv' ret' g' where
    "gae_loop self rewards values dones (rev [0..<T]) (replicate T 0, replicate T 0, 0) = Inr (adv', ret', g')"
    "length adv' = T" "length ret' = T"
    "\<forall>j<T. adv' ! j = gae_val self rewards values dones j (if Suc j = T then 0 else adv' ! Suc j)
                    \<and> ret' ! j = adv' ! j + values ! j"
    using gae_loop_inv [OF assms, of T "replicate T 0" "replicate T 0" self 0] by auto
  then show ?thesis
    using assms(1) py_index_minus1 [OF ne] by (auto simp: gae_scan_def Let_def)
qed

lemma gae_step_length:
  "gae_step self rewards values dones t (adv, ret, g) = Inr (adv', ret', g')
     \<Longrightarrow> length adv' = length adv \<and> length ret' = length ret"
  by (auto simp: gae_step_def bind_res_def Let_def split: sum.splits prod.splits)

lemma gae_loop_length:
  "gae_loop self rewards values dones ts (adv, ret, g) = Inr (adv', ret', g')
     \<Longrightarrow> length adv' = length adv \<and> length ret' = length ret"
proof (induction ts arbitrary: adv ret g)
  case Nil
  then show ?case by simp
next
  case (Cons t ts)
  then obtain a1 r1 g1 where
    s: "gae_step self rewards values dones t (adv, ret, g) = Inr (a1, r1, g1)"
    and l: "gae_loop self rewards values dones ts (a1, r1, g1) = Inr (adv', ret', g')"
    by (cases "gae_step self rewards values dones t (adv, ret, g)") auto
  show ?case using gae_step_length [OF s] Cons.IH [OF l] by simp
qed

lemma gae_scan_length:
  "gae_scan self rewards values dones = Inr (raw, ret, g)
     \<Longrightarrow> length raw = length rewards \<and> length ret = length rewards"
  by (auto simp: gae_scan_def Let_def bind_res_def split: sum.splits dest: gae_loop_length)

lemma compute_advantages_length:
  "compute_advantages self rewards values dones = Inr (advantages, returns)
     \<Longrightarrow> length advantages = length rewards \<and> length returns = length rewards"
  by (auto simp: compute_advantages_def normalize_def bind_res_def split: sum.splits dest: gae_scan_length)

text \<open>
  Claim C1. In the reverse scan of \<^verbatim>\<open>compute_advantages\<close>, on rewards of length
  \<open>T \<ge> 1\<close> with \<open>T + 1\<close> values and \<open>T\<close> done flags, the last step \<open>t = T - 1\<close>
  takes \<open>next_value = values[T]\<close> and \<open>next_done = dones[T - 1]\<close>, its own flag, and every
  earlier step takes \<open>values[t + 1]\<close> and \<open>dones[t + 1]\<close>; the advantages the scan stores
  obey the recursion built from exactly these choices, seeded with 0.
\<close>

theorem gae_scan_boundary_and_general_case:
  assumes "length rewards = T" "1 \<le> T" "length values = T + 1" "length dones = T"
  shows "gae_next rewards values dones (T - 1) = Inr (values ! T, dones ! (T - 1))
       \<and> (\<forall>t. t < T - 1 \<longrightarrow> gae_next rewards values dones t = Inr (values ! (t + 1), dones ! (t + 1)))
       \<and> (\<exists>raw ret g.
            gae_scan self rewards values dones = Inr (raw, ret, g)
            \<and> raw ! (T - 1) =
                td_delta self (rewards ! (T - 1)) (values ! T) (dones ! (T - 1)) (values ! (T - 1))
            \<and> (\<forall>t. t < T - 1 \<longrightarrow>
                  raw ! t =
                    td_delta self (rewards ! t) (values ! (t + 1)) (dones ! (t + 1)) (values ! t)
                      + gamma self * gaelam self * (1 - of_bool (dones ! (t + 1))) * raw ! (t + 1)))"
proof -
  have lens: "length rewards = T" "length values = Suc T" "length dones = T"
    using assms by simp_all
  have last: "gae_next rewards values dones (T - 1) = Inr (values ! T, dones ! (T - 1))"
    using gae_next_ok [OF lens, of "T - 1"] assms(2) by (simp add: nd_idx_def)
  have general: "\<forall>t. t < T - 1 \<longrightarrow> gae_next rewards values dones t = Inr (values ! (t + 1), dones ! (t + 1))"
  proof (intro allI impI)
    fix t assume "t < T - 1"
    then have "t < T" "Suc t \<noteq> T" by auto
    then show "gae_next rewards values dones t = Inr (values ! (t + 1), dones ! (t + 1))"
      using gae_next_ok [OF lens, of t] by (simp add: nd_idx_def)
  qed
  obtain raw ret g where
    scan: "gae_scan self rewards values dones = Inr (raw, ret, g)"
    and rec: "\<forall>j<T. raw ! j = gae_val self rewards values dones j (if Suc j = T then 0 else raw ! Suc j)"
    using gae_scan_ok [OF lens, of self] by blast
  have "raw ! (T - 1) = td_delta self (rewards ! (T - 1)) (values ! T) (dones ! (T - 1)) (values ! (T - 1))"
    using rec [rule_format, of "T - 1"] assms(1,2) by (simp add: gae_val_def nd_idx_def)
  moreover have "\<forall>t. t < T - 1 \<longrightarrow>
                  raw ! t =
                    td_delta self (rewards ! t) (values ! (t + 1)) (dones ! (t + 1)) (values ! t)
                      + gamma self * gaelam self * (1 - of_bool (dones ! (t + 1))) * raw ! (t + 1)"
  proof (intro allI impI)
    fix t assume "t < T - 1"
    then have "t < T" "Suc t \<noteq> T" by auto
    then show "raw ! t =
                    td_delta self (rewards ! t) (values ! (t + 1)) (dones ! (t + 1)) (values ! t)
                      + gamma self * gaelam self * (1 - of_bool (dones ! (t + 1))) * raw ! (t + 1)"
      using rec [rule_format, of t] assms(1) by (simp add: gae_val_def nd_idx_def)
  qed
  ultimately show ?thesis using last general scan by blast
qed

theorem gae_scan_boundary_and_general_case_witness:
  "length [1, 1, 1 :: real] = 3 \<and> (1::nat) \<le> 3 \<and> length [0, 0, 0, 0 :: real] = 3 + 1
     \<and> length [False, False, True] = 3
     \<and> gae_next [1, 1, 1] [0, 0, 0, 0] [False, False, True] (3 - 1) = Inr (0, True)
     \<and> gae_next [1, 1, 1] [0, 0, 0, 0] [False, False, True] 0 = Inr (0, False)"
  using gae_scan_boundary_and_general_case [of "[1, 1, 1]" 3 "[0, 0, 0, 0]" "[False, False, True]" init_agent]
  by simp

section \<open>Returns, residuals and the entropy schedule\<close>

text \<open>
  Claim C2. On rewards of length \<open>T\<close> with \<open>T + 1\<close> values and \<open>T\<close> done flags, the scan
  succeeds and \<open>returns[t] = advantages[t] + values[t]\<close> for every \<open>t\<close>, where
  \<open>advantages\<close> is the array before the normalisation. \<^verbatim>\<open>compute_advantages\<close> returns
  the normalised advantages together with these returns, which are not normalised.
\<close>

theorem returns_are_raw_advantages_plus_values:
  assumes "length values = length rewards + 1" "length dones = length rewards"
  shows "\<exists>raw ret g.
           gae_scan self rewards values dones = Inr (raw, ret, g)
           \<and> length raw = length rewards \<and> length ret = length rewards
           \<and> (\<forall>t. t < length rewards \<longrightarrow> ret ! t = raw ! t + values ! t)
           \<and> compute_advantages self rewards values dones = Inr (normalize raw, ret)"
proof -
  have lens: "length rewards = length rewards" "length values = Suc (length rewards)"
    "length dones = length rewards"
    using assms by simp_all
  obtain raw ret g where
    scan: "gae_scan self rewards values dones = Inr (raw, ret, g)"
    and len: "length raw = length rewards" "length ret = length rewards"
    and rel: "\<forall>j<length rewards. ret ! j = raw ! j + values ! j"
    using gae_scan_ok [OF lens, of self] by blast
  have "compute_advantages self rewards values dones = Inr (normalize raw, ret)"
    using scan by (simp add: compute_advantages_def)
  then show ?thesis using scan len rel by blast
qed

theorem returns_are_raw_advantages_plus_values_witness:
  "length [0, 0 :: real] = length [1 :: real] + 1 \<and> length [False] = length [1 :: real]
   \<and> gae_scan init_agent [1] [0, 0] [False] = Inr ([1], [1], 1)
   \<and> compute_advantages init_agent [1] [0, 0] [False] = Inr ([0], [1])"
proof -
  have s: "gae_scan init_agent [1] [0, 0] [False] = Inr ([1], [1], 1)"
    by (simp add: gae_scan_def gae_step_def gae_next_def py_index_def td_delta_def init_agent_def
      Let_def)
  have n: "normalize [1] = [0]"
    by (simp add: normalize_def np_mean_def)
  show ?thesis
    using returns_are_raw_advantages_plus_values [of "[0, 0]" "[1]" "[False]" init_agent] s n by simp
qed

text \<open>
  Claim C7, as amended. With \<open>gaelam = 0\<close>, on rewards of length \<open>T\<close> with \<open>T + 1\<close> values
  and \<open>T\<close> done flags, the advantage that the scan stores at every step \<open>t\<close>, before the
  normalisation, is the one-step residual
  \<open>rewards[t] + gamma * next_value * (1 - next_done) - values[t]\<close>, and \<open>returns[t]\<close> is
  that residual plus \<open>values[t]\<close>. The advantages that \<^verbatim>\<open>compute_advantages\<close> returns are
  the normalisation of the stored ones.
\<close>

theorem raw_advantages_are_td_residuals_at_lambda_zero:
  assumes "gaelam self = 0"
    and "length values = length rewards + 1" "length dones = length rewards"
  shows "\<exists>raw ret g.
           gae_scan self rewards values dones = Inr (raw, ret, g)
           \<and> compute_advantages self rewards values dones = Inr (normalize raw, ret)
           \<and> (\<forall>t. t < length rewards \<longrightarrow>
                 (\<exists>next_value next_done.
                    gae_next rewards values dones t = Inr (next_value, next_done)
                    \<and> raw ! t = td_delta self (rewards ! t) next_value next_done (values ! t)
                    \<and> ret ! t = td_delta self (rewards ! t) next_value next_done (values ! t) + values ! t))"
proof -
  have lens: "length rewards = length rewards" "length values = Suc (length rewards)"
    "length dones = length rewards"
    using assms by simp_all
  obtain raw ret g where
    scan: "gae_scan self rewards values dones = Inr (raw, ret, g)"
    and rel: "\<forall>j<length rewards.
        raw ! j = gae_val self rewards values dones j (if Suc j = length rewards then 0 else raw ! Suc j)
        \<and> ret ! j = raw ! j + values ! j"
    using gae_scan_ok [OF lens, of self] by blast
  have comp: "compute_advantages self rewards values dones = Inr (normalize raw, ret)"
    using scan by (simp add: compute_advantages_def)
  have "\<forall>t. t < length rewards \<longrightarrow>
          (\<exists>next_value next_done.
             gae_next rewards values dones t = Inr (next_value, next_done)
             \<and> raw ! t = td_delta self (rewards ! t) next_value next_done (values ! t)
             \<and> ret ! t = td_delta self (rewards ! t) next_value next_done (values ! t) + values ! t)"
  proof (intro allI impI)
    fix t assume t: "t < length rewards"
    have nx: "gae_next rewards values dones t
                = Inr (values ! Suc t, dones ! nd_idx (length rewards) t)"
      using gae_next_ok [OF lens t] .
    have "raw ! t = td_delta self (rewards ! t) (values ! Suc t)
                      (dones ! nd_idx (length rewards) t) (values ! t)"
      using rel t assms(1) by (simp add: gae_val_def)
    moreover have "ret ! t = raw ! t + values ! t" using rel t by simp
    ultimately show "\<exists>next_value next_done.
             gae_next rewards values dones t = Inr (next_value, next_done)
             \<and> raw ! t = td_delta self (rewards ! t) next_value next_done (values ! t)
             \<and> ret ! t = td_delta self (rewards ! t) next_value next_done (values ! t) + values ! t"
      using nx by simp
  qed
  then show ?thesis using scan comp by blast
qed

text \<open>
  Claim C7 as stated, about the advantages that \<^verbatim>\<open>compute_advantages\<close> produces, fails:
  with \<open>gaelam = 0\<close>, one reward 1 and values 0 the residual is 1 and the returned
  advantage is 0.
\<close>

theorem returned_advantages_differ_from_td_residual:
  "gaelam (init_agent\<lparr>gaelam := 0\<rparr>) = 0
   \<and> compute_advantages (init_agent\<lparr>gaelam := 0\<rparr>) [1] [0, 0] [False] = Inr ([0], [1])
   \<and> gae_next [1] [0, 0] [False] 0 = Inr (0, False)
   \<and> td_delta (init_agent\<lparr>gaelam := 0\<rparr>) ([1] ! 0) 0 False ([0, 0] ! 0) = 1
   \<and> [0 :: real] ! 0 \<noteq> td_delta (init_agent\<lparr>gaelam := 0\<rparr>) ([1] ! 0) 0 False ([0, 0] ! 0)"
proof -
  have s: "gae_scan (init_agent\<lparr>gaelam := 0\<rparr>) [1] [0, 0] [False] = Inr ([1], [1], 1)"
    by (simp add: gae_scan_def gae_step_def gae_next_def py_index_def td_delta_def init_agent_def
      Let_def)
  have n: "normalize [1] = [0]"
    by (simp add: normalize_def np_mean_def)
  have c: "compute_advantages (init_agent\<lparr>gaelam := 0\<rparr>) [1] [0, 0] [False] = Inr ([0], [1])"
    using s n by (simp add: compute_advantages_def)
  have d: "td_delta (init_agent\<lparr>gaelam := 0\<rparr>) ([1] ! 0) 0 False ([0, 0] ! 0) = 1"
    by (simp add: td_delta_def)
  have x: "gae_next [1] [0, 0] [False] 0 = Inr (0, False)"
    by (simp add: gae_next_def py_index_def)
  show ?thesis using c d x by simp
qed

theorem raw_advantages_are_td_residuals_at_lambda_zero_witness:
  "gaelam (init_agent\<lparr>gaelam := 0\<rparr>) = 0
   \<and> length [0, 0, 0 :: real] = length [1, 2 :: real] + 1 \<and> length [False, True] = length [1, 2 :: real]
   \<and> gae_scan (init_agent\<lparr>gaelam := 0\<rparr>) [1, 2] [0, 0, 0] [False, True] = Inr ([1, 2], [1, 2], 1)"
proof -
  have s: "gae_scan (init_agent\<lparr>gaelam := 0\<rparr>) [1, 2] [0, 0, 0] [False, True] = Inr ([1, 2], [1, 2], 1)"
    by (simp add: gae_scan_def gae_step_def gae_next_def py_index_def td_delta_def init_agent_def
      Let_def upt_rec)
  show ?thesis
    using raw_advantages_are_td_residuals_at_lambda_zero [of "init_agent\<lparr>gaelam := 0\<rparr>" "[0, 0, 0]" "[1, 2]" "[False, True]"] s by simp
qed

text \<open>
  Claim C4, as amended. For every episode index and every \<open>max_episodes\<close> other than 0,
  \<^verbatim>\<open>update_entropy_coef\<close> returns the clamp to \<open>[min_entropy, max_entropy]\<close> of
  \<open>max_entropy - (max_entropy - min_entropy) * episode / max_episodes\<close>: the linear term is
  divided by the number of episodes. At episode 0 this is the clamp of \<open>max_entropy\<close> and
  at episode \<open>max_episodes\<close> the clamp of \<open>min_entropy\<close>. The result depends on the two
  arguments and the two bounds only.
\<close>

theorem entropy_coef_divides_by_max_episodes:
  assumes "max_episodes \<noteq> 0"
  shows "update_entropy_coef self episode max_episodes =
           Inr (np_clip
                  (max_entropy self
                     - (max_entropy self - min_entropy self)
                         * (real_of_int episode / real_of_int max_episodes))
                  (min_entropy self) (max_entropy self))
         \<and> update_entropy_coef self 0 max_episodes
             = Inr (min (max_entropy self) (max (max_entropy self) (min_entropy self)))
         \<and> update_entropy_coef self max_episodes max_episodes
             = Inr (min (max_entropy self) (min_entropy self))"
  using assms by (simp add: update_entropy_coef_def np_clip_def)

theorem entropy_coef_divides_by_max_episodes_witness:
  "(2::int) \<noteq> 0 \<and> update_entropy_coef init_agent 1 2 = Inr (101 / 20000)
   \<and> update_entropy_coef init_agent 0 2 = Inr (1 / 100)
   \<and> update_entropy_coef init_agent 2 2 = Inr (1 / 10000)"
  using entropy_coef_divides_by_max_episodes [of 2 init_agent 1]
  by (simp add: init_agent_def np_clip_def)

text \<open>
  Claim C4 as stated, with the linear term divided by \<open>max_entropy\<close>, fails: at episode 1
  of 2 the code returns \<open>0.00505\<close>, and the stated formula gives \<open>0.0001\<close>.
\<close>

theorem entropy_coef_not_divided_by_max_entropy:
  "update_entropy_coef init_agent 1 2 = Inr (101 / 20000)
   \<and> np_clip
       (max_entropy init_agent
          - (max_entropy init_agent - min_entropy init_agent) * 1 / max_entropy init_agent)
       (min_entropy init_agent) (max_entropy init_agent) = 1 / 10000
   \<and> update_entropy_coef init_agent 1 2 \<noteq>
       Inr (np_clip
              (max_entropy init_agent
                 - (max_entropy init_agent - min_entropy init_agent) * 1 / max_entropy init_agent)
              (min_entropy init_agent) (max_entropy init_agent))"
  by (simp add: update_entropy_coef_def init_agent_def np_clip_def)

section \<open>The losses of the update\<close>

lemma tf_elementwise_column_entry:
  "tf_elementwise (\<lambda>x v. x - v) xs [v] = Inr (map (\<lambda>x. x - v) xs)"
proof (cases "length xs = 1")
  case True
  then obtain x where "xs = [x]" by (cases xs) auto
  then show ?thesis by (simp add: tf_elementwise_def)
next
  case False
  then show ?thesis by (simp add: tf_elementwise_def)
qed

lemma map_res_Inr:
  "(\<And>x. x \<in> set xs \<Longrightarrow> f x = Inr (g x)) \<Longrightarrow> map_res f xs = Inr (map g xs)"
  by (induction xs) simp_all

lemma critic_loss_column:
  "critic_loss returns (map (\<lambda>v. [v]) vs) =
     Inr (reduce_mean (map (\<lambda>x. x * x) (concat (map (\<lambda>v. map (\<lambda>r. r - v) returns) vs))))"
proof -
  have "tf_sub_vector_matrix returns (map (\<lambda>v. [v]) vs)
          = Inr (map (\<lambda>row. map (\<lambda>r. r - hd row) returns) (map (\<lambda>v. [v]) vs))"
    unfolding tf_sub_vector_matrix_def
    by (rule map_res_Inr) (auto simp: tf_elementwise_column_entry)
  then show ?thesis by (simp add: critic_loss_def comp_def)
qed

text \<open>
  Claim C3. The claim is that the value loss is the mean of the \<open>T\<close> squared differences
  \<open>returns[t] - values[t]\<close>. With the critic's output of shape \<open>(T, 1)\<close> the subtraction of
  line 203 broadcasts to shape \<open>(T, T)\<close>, and the loss is the mean over all \<open>T * T\<close> pairs
  of a return and a value estimate. On two states with returns \<open>[0, 1]\<close> and value estimates
  \<open>[[0], [1]]\<close> the code computes \<open>1 / 2\<close>, where the mean of the elementwise squared
  differences is \<open>0\<close>. The value update has no clipping.
\<close>

theorem critic_loss_pairs_every_return_with_every_value:
  "critic_loss returns (map (\<lambda>v. [v]) vs) =
     Inr (reduce_mean (map (\<lambda>x. x * x) (concat (map (\<lambda>v. map (\<lambda>r. r - v) returns) vs))))
   \<and> critic_loss [0, 1] [[0], [1]] = Inr (Fin (1 / 2))
   \<and> reduce_mean (map2 (\<lambda>r v. (r - v) * (r - v)) [0, 1] [0, 1]) = Fin 0"
proof -
  have "critic_loss [0, 1] [[0], [1]] = Inr (Fin (1 / 2))"
    by (simp add: critic_loss_def tf_sub_vector_matrix_def tf_elementwise_def reduce_mean_def)
  moreover have "reduce_mean (map2 (\<lambda>r v. (r - v) * (r - v)) [0, 1] [0, 1]) = Fin 0"
    by (simp add: reduce_mean_def)
  ultimately show ?thesis using critic_loss_column [of returns vs] by simp
qed














section \<open>The rollout loop\<close>

lemma rollout_step_aligned:
  "rollout_step c e = Inr (left, e') \<Longrightarrow> aligned e \<Longrightarrow> aligned e'"
  by (auto simp: rollout_step_def aligned_def bind_res_def Let_def
      split: prod.splits if_splits sum.splits)

lemma rollout_step_next_state:
  "rollout_step c e = Inr (left, e') \<Longrightarrow> ep_next_state e' \<noteq> None"
  by (auto simp: rollout_step_def bind_res_def Let_def
      split: prod.splits if_splits sum.splits)

lemma rollout_loop_done:
  "ep_done e \<Longrightarrow> rollout_loop c e = Some (Inr e)"
  by (subst rollout_loop.simps) (simp only: if_True)

lemma rollout_loop_raise:
  "\<not> ep_done e \<Longrightarrow> rollout_step c e = Inl err \<Longrightarrow> rollout_loop c e = Some (Inl err)"
  by (subst rollout_loop.simps) (simp only: if_False sum.case)

lemma rollout_loop_left:
  "\<not> ep_done e \<Longrightarrow> rollout_step c e = Inr (True, e') \<Longrightarrow> rollout_loop c e = Some (Inr e')"
  by (subst rollout_loop.simps) (simp only: if_False sum.case prod.case if_True)

lemma rollout_loop_continue:
  "\<not> ep_done e \<Longrightarrow> rollout_step c e = Inr (False, e') \<Longrightarrow> rollout_loop c e = rollout_loop c e'"
  by (subst rollout_loop.simps) (simp only: if_False sum.case prod.case)

text \<open>A property that every pass of the loop keeps holds when the loop returns.\<close>

lemma rollout_loop_invariant:
  assumes ret: "rollout_loop c e = Some (Inr e')"
    and start: "I e"
    and keep: "\<And>e left e1. I e \<Longrightarrow> \<not> ep_done e \<Longrightarrow> rollout_step c e = Inr (left, e1) \<Longrightarrow> I e1"
  shows "I e'"
proof -
  have "c = c \<longrightarrow> I e \<longrightarrow> (\<forall>x. (Inr e' :: error + ('a, 'b) episode) = Inr x \<longrightarrow> I x)"
  proof (rule rollout_loop.raw_induct
      [where P = "\<lambda>c0 e r. c0 = c \<longrightarrow> I e \<longrightarrow> (\<forall>x. r = Inr x \<longrightarrow> I x)", OF _ ret])
    fix loop c0 e r
    assume ih: "\<And>c1 e r. loop c1 e = Some r \<Longrightarrow>
                  c1 = c \<longrightarrow> I e \<longrightarrow> (\<forall>x. r = Inr x \<longrightarrow> I x)"
      and body: "(if ep_done e then Some (Inr e)
                  else case rollout_step c0 e of
                         Inl err \<Rightarrow> Some (Inl err)
                       | Inr (left, e') \<Rightarrow> if left then Some (Inr e') else loop c0 e') = Some r"
    show "c0 = c \<longrightarrow> I e \<longrightarrow> (\<forall>x. r = Inr x \<longrightarrow> I x)"
    proof (intro impI allI)
    fix e'
    assume c0: "c0 = c" and inv: "I e" and r: "r = Inr e'"
    show "I e'"
    proof (cases "ep_done e")
      case True
      then have "Some (Inr e) = Some r" using body by (simp only: if_True)
      then have "e' = e" using r by simp
      then show ?thesis using inv by simp
    next
      case False
      then have b: "(case rollout_step c0 e of
                         Inl err \<Rightarrow> Some (Inl err)
                       | Inr (left, e') \<Rightarrow> if left then Some (Inr e') else loop c0 e') = Some r"
        using body by (simp only: if_False)
      show ?thesis
      proof (cases "rollout_step c0 e")
        case (Inl err)
        then have "Some (Inl err) = Some r" using b by (simp only: sum.case)
        then show ?thesis using r by simp
      next
        case (Inr p)
        obtain left e1 where p: "p = (left, e1)" by (cases p)
        have st: "rollout_step c e = Inr (left, e1)" using Inr p c0 by simp
        have i1: "I e1" using keep [OF inv False st] .
        have b2: "(if left then Some (Inr e1) else loop c0 e1) = Some r"
          using b Inr p by (simp only: sum.case prod.case)
        show ?thesis
        proof (cases left)
          case True
          then have "Some (Inr e1) = Some r" using b2 by (simp only: if_True)
          then have "e' = e1" using r by simp
          then show ?thesis using i1 by simp
        next
          case f: False
          then have "loop c0 e1 = Some r" using b2 by (simp only: if_False)
          then show ?thesis using ih c0 i1 r by blast
        qed
      qed
    qed
    qed
  qed
  then show ?thesis using start by blast
qed

lemma rollout_loop_aligned:
  "rollout_loop c e = Some (Inr e') \<Longrightarrow> aligned e \<Longrightarrow> aligned e'"
  by (rule rollout_loop_invariant [where I = aligned]) (auto intro: rollout_step_aligned)

lemma init_episode_aligned: "aligned (init_episode r)"
  by (simp add: aligned_def init_episode_def)

lemma after_steps_loop:
  "after_steps n c e0 = Some e \<Longrightarrow> rollout_loop c e0 = rollout_loop c e"
proof (induction n arbitrary: e0)
  case 0
  then show ?case by simp
next
  case (Suc n)
  from Suc.prems obtain e1 where
    nd: "\<not> ep_done e0" and st: "rollout_step c e0 = Inr (False, e1)"
    and rest: "after_steps n c e1 = Some e"
    by (auto split: if_splits sum.splits prod.splits)
  have "rollout_loop c e0 = rollout_loop c e1"
    using nd st by (rule rollout_loop_continue)
  then show ?case using Suc.IH [OF rest] by simp
qed

lemma after_steps_aligned:
  "after_steps n c e0 = Some e \<Longrightarrow> aligned e0 \<Longrightarrow> aligned e"
proof (induction n arbitrary: e0)
  case 0
  then show ?case by simp
next
  case (Suc n)
  from Suc.prems obtain e1 where
    st: "rollout_step c e0 = Inr (False, e1)"
    and rest: "after_steps n c e1 = Some e"
    by (auto split: if_splits sum.splits prod.splits)
  show ?case using Suc.IH [OF rest] rollout_step_aligned [OF st] Suc.prems(2) by simp
qed

lemma rollout_step_length:
  "rollout_step c e = Inr (False, e') \<Longrightarrow> length (ep_rewards e') = Suc (length (ep_rewards e))"
  by (auto simp: rollout_step_def bind_res_def Let_def
      split: prod.splits if_splits sum.splits)

lemma after_steps_length:
  "after_steps n c e0 = Some e \<Longrightarrow> length (ep_rewards e) = length (ep_rewards e0) + n"
proof (induction n arbitrary: e0)
  case 0
  then show ?case by simp
next
  case (Suc n)
  from Suc.prems obtain e1 where
    st: "rollout_step c e0 = Inr (False, e1)"
    and rest: "after_steps n c e1 = Some e"
    by (auto split: if_splits sum.splits prod.splits)
  show ?case using Suc.IH [OF rest] rollout_step_length [OF st] by simp
qed

lemma rollout_step_nan:
  assumes "actor_sample c (ep_world e) (ep_state e) = ((action, log_prob, raw_action), w1)"
    and "env_step c w1 action = ((next_state, reward, done), w2)"
    and "list_ex is_nan next_state"
  shows "rollout_step c e =
           Inr (True, e\<lparr>ep_world := w2, ep_next_state := Some next_state, ep_done := done\<rparr>)"
  using assms by (simp add: rollout_step_def)

lemma rollout_loop_nan:
  assumes "\<not> ep_done e"
    and "actor_sample c (ep_world e) (ep_state e) = ((action, log_prob, raw_action), w1)"
    and "env_step c w1 action = ((next_state, reward, done), w2)"
    and "list_ex is_nan next_state"
  shows "rollout_loop c e =
           Some (Inr (e\<lparr>ep_world := w2, ep_next_state := Some next_state, ep_done := done\<rparr>))"
  using assms(1) rollout_step_nan [OF assms(2-4)]
  by (rule rollout_loop_left)

section \<open>The scripted runs\<close>

lemma nan_run_step1:
  "rollout_step nan_run (init_episode (env_reset nan_run 0)) = Inr (False, nan_run_first)"
  by (simp add: rollout_step_def nan_run_def script_collab_def init_episode_def
      critic_scalar_def py_index_def nan_run_first_def)

lemma nan_run_after1:
  "after_steps 1 nan_run (init_episode (env_reset nan_run 0)) = Some nan_run_first"
proof -
  have "\<not> ep_done (init_episode (env_reset nan_run 0) :: (nat, unit) episode)"
    by (simp add: init_episode_def)
  then show ?thesis
    using nan_run_step1 by (simp add: One_nat_def)
qed

lemma nan_run_facts:
  "\<not> ep_done nan_run_first"
  "actor_sample nan_run (ep_world nan_run_first) (ep_state nan_run_first) = (((), Fin 0, ()), 1)"
  "env_step nan_run 1 () = (([NaN, Fin 5], 1, False), 2)"
  "list_ex is_nan [NaN, Fin 5]"
  "critic_scalar nan_run 2 [NaN, Fin 5] = Inr 5"
  by (simp_all add: nan_run_def script_collab_def nan_run_first_def critic_scalar_def py_index_def)

lemma inf_run_loop:
  "rollout_loop inf_run (init_episode (env_reset inf_run 0)) = Some (Inr inf_run_final)"
proof -
  let ?e0 = "init_episode (env_reset inf_run 0) :: (nat, unit) episode"
  let ?e1 = "\<lparr> ep_world = 1, ep_state = [PInf], ep_next_state = Some [PInf],
       ep_done = False, ep_episode_reward = 1, ep_states = [[Fin 0]], ep_actions = [()],
       ep_rewards = [1], ep_dones = [False], ep_probs = [Fin 0], ep_values_learned = [0],
       ep_raw_actions = [()] \<rparr> :: (nat, unit) episode"
  let ?e2 = "\<lparr> ep_world = 2, ep_state = [Fin 3], ep_next_state = Some [Fin 3],
       ep_done = True, ep_episode_reward = 2, ep_states = [[Fin 0], [PInf]], ep_actions = [(), ()],
       ep_rewards = [1, 1], ep_dones = [False, True], ep_probs = [Fin 0, Fin 0],
       ep_values_learned = [0, 0], ep_raw_actions = [(), ()] \<rparr> :: (nat, unit) episode"
  have s1: "rollout_step inf_run ?e0 = Inr (False, ?e1)"
    by (simp add: rollout_step_def inf_run_def script_collab_def init_episode_def
        critic_scalar_def py_index_def)
  have s2: "rollout_step inf_run ?e1 = Inr (False, ?e2)"
    by (simp add: rollout_step_def inf_run_def script_collab_def
        critic_scalar_def py_index_def)
  have "rollout_loop inf_run ?e0 = rollout_loop inf_run ?e1"
    by (rule rollout_loop_continue [OF _ s1]) (simp add: init_episode_def)
  also have "\<dots> = rollout_loop inf_run ?e2"
    by (rule rollout_loop_continue [OF _ s2]) simp
  also have "\<dots> = Some (Inr ?e2)"
    by (rule rollout_loop_done) simp
  finally show ?thesis by (simp add: inf_run_final_def)
qed

section \<open>The training loop and the advantage estimator\<close>

lemma compute_advantages_ok:
  assumes "length values = Suc (length rewards)" "length dones = length rewards"
  shows "\<exists>advantages returns.
           compute_advantages self rewards values dones = Inr (advantages, returns)
           \<and> length advantages = length rewards \<and> length returns = length rewards"
proof -
  obtain raw ret g where "gae_scan self rewards values dones = Inr (raw, ret, g)"
    using gae_scan_ok [OF refl assms, of self] by blast
  then have "compute_advantages self rewards values dones = Inr (normalize raw, ret)"
    by (simp add: compute_advantages_def)
  then show ?thesis using compute_advantages_length by blast
qed

lemma finish_episode_unfold:
  assumes "ep_next_state e = Some next_state"
  shows "finish_episode c self episode max_episodes e =
           bind_res (critic_scalar c (ep_world e) next_state) (\<lambda>next_value_learned.
           bind_res (compute_advantages self (ep_rewards e)
                       (ep_values_learned e @ [next_value_learned]) (ep_dones e))
             (\<lambda>(advantages, returns).
           bind_res (update_entropy_coef self episode max_episodes) (\<lambda>entropy_coef.
           bind_res (np_vstack (ep_states e)) (\<lambda>states.
             update c self (ep_world e) states (ep_actions e) advantages returns (ep_probs e)
               entropy_coef (ep_raw_actions e)))))"
  using assms by (simp add: finish_episode_def Let_def)

text \<open>
  Claim C8. When the rollout loop of an episode returns, the call of
  \<^verbatim>\<open>compute_advantages\<close> that follows receives one value more than rewards and as many
  done flags as rewards, and it succeeds with advantages and returns of the rewards' length.
  Whenever \<^verbatim>\<open>compute_advantages\<close> returns, on any input, both results have the rewards'
  length.
\<close>

theorem training_loop_gae_lengths:
  assumes "rollout_loop c (init_episode (env_reset c w)) = Some (Inr e)"
    and "ep_next_state e = Some next_state"
    and "critic_scalar c (ep_world e) next_state = Inr next_value_learned"
  shows "length (ep_values_learned e @ [next_value_learned]) = length (ep_rewards e) + 1
       \<and> length (ep_dones e) = length (ep_rewards e)
       \<and> finish_episode c self episode max_episodes e =
           bind_res (compute_advantages self (ep_rewards e)
                       (ep_values_learned e @ [next_value_learned]) (ep_dones e))
             (\<lambda>(advantages, returns).
           bind_res (update_entropy_coef self episode max_episodes) (\<lambda>entropy_coef.
           bind_res (np_vstack (ep_states e)) (\<lambda>states.
             update c self (ep_world e) states (ep_actions e) advantages returns (ep_probs e)
               entropy_coef (ep_raw_actions e))))
       \<and> (\<exists>advantages returns.
             compute_advantages self (ep_rewards e)
               (ep_values_learned e @ [next_value_learned]) (ep_dones e) = Inr (advantages, returns)
             \<and> length advantages = length (ep_rewards e)
             \<and> length returns = length (ep_rewards e))
       \<and> (\<forall>a rewards values dones advantages returns.
             compute_advantages a rewards values dones = Inr (advantages, returns)
               \<longrightarrow> length advantages = length rewards \<and> length returns = length rewards)"
proof -
  have al: "aligned e"
    using rollout_loop_aligned [OF assms(1) init_episode_aligned] .
  have l1: "length (ep_values_learned e @ [next_value_learned]) = Suc (length (ep_rewards e))"
    and l2: "length (ep_dones e) = length (ep_rewards e)"
    using al by (simp_all add: aligned_def)
  have fin: "finish_episode c self episode max_episodes e =
           bind_res (compute_advantages self (ep_rewards e)
                       (ep_values_learned e @ [next_value_learned]) (ep_dones e))
             (\<lambda>(advantages, returns).
           bind_res (update_entropy_coef self episode max_episodes) (\<lambda>entropy_coef.
           bind_res (np_vstack (ep_states e)) (\<lambda>states.
             update c self (ep_world e) states (ep_actions e) advantages returns (ep_probs e)
               entropy_coef (ep_raw_actions e))))"
    using finish_episode_unfold [OF assms(2)] assms(3) by simp
  show ?thesis
    using l1 l2 fin compute_advantages_ok [OF l1 l2, of self] compute_advantages_length
    by (simp only: Suc_eq_plus1) blast
qed

theorem training_loop_gae_lengths_witness:
  "rollout_loop inf_run (init_episode (env_reset inf_run 0)) = Some (Inr inf_run_final)
   \<and> ep_next_state inf_run_final = Some [Fin 3]
   \<and> critic_scalar inf_run (ep_world inf_run_final) [Fin 3] = Inr 3
   \<and> length (ep_values_learned inf_run_final @ [3]) = length (ep_rewards inf_run_final) + 1
   \<and> length (ep_dones inf_run_final) = length (ep_rewards inf_run_final)
   \<and> ep_rewards inf_run_final = [1, 1]"
proof -
  have n: "ep_next_state inf_run_final = Some [Fin 3]"
    by (simp add: inf_run_final_def)
  have v: "critic_scalar inf_run (ep_world inf_run_final) [Fin 3] = Inr 3"
    by (simp add: critic_scalar_def inf_run_def script_collab_def py_index_def)
  show ?thesis
    using training_loop_gae_lengths [OF inf_run_loop n v, of init_agent 0 1] inf_run_loop n v
    by (simp add: inf_run_final_def)
qed

section \<open>The rollout that meets a NaN\<close>

lemma after_steps_init_aligned:
  "after_steps n c (init_episode r) = Some e \<Longrightarrow> aligned e \<and> length (ep_rewards e) = n"
  using after_steps_aligned [OF _ init_episode_aligned] after_steps_length [of n c "init_episode r" e]
  by (simp add: init_episode_def)

text \<open>
  Claim C10. When a pass of the rollout loop leaves because the next state contains a
  NaN, after \<open>n\<close> recorded transitions, the loop returns with the seven buffers and the
  episode reward as they were before the pass, so nothing of the aborting step is
  recorded, and the bootstrap value appended to the value estimates is the critic's value
  of that next state.
\<close>

theorem nan_abort_drops_step_and_bootstraps_on_nan_state:
  assumes "after_steps n c (init_episode (env_reset c w)) = Some e"
    and "\<not> ep_done e"
    and "actor_sample c (ep_world e) (ep_state e) = ((action, log_prob, raw_action), w1)"
    and "env_step c w1 action = ((next_state, reward, done), w2)"
    and "list_ex is_nan next_state"
  shows "\<exists>e'. rollout_loop c (init_episode (env_reset c w)) = Some (Inr e')
           \<and> ep_states e' = ep_states e \<and> ep_actions e' = ep_actions e
           \<and> ep_rewards e' = ep_rewards e \<and> ep_dones e' = ep_dones e
           \<and> ep_probs e' = ep_probs e \<and> ep_values_learned e' = ep_values_learned e
           \<and> ep_raw_actions e' = ep_raw_actions e
           \<and> ep_episode_reward e' = ep_episode_reward e
           \<and> length (ep_rewards e') = n
           \<and> finish_episode c self episode max_episodes e' =
               bind_res (critic_scalar c w2 next_state) (\<lambda>next_value_learned.
               bind_res (compute_advantages self (ep_rewards e)
                           (ep_values_learned e @ [next_value_learned]) (ep_dones e))
                 (\<lambda>(advantages, returns).
               bind_res (update_entropy_coef self episode max_episodes) (\<lambda>entropy_coef.
               bind_res (np_vstack (ep_states e)) (\<lambda>states.
                 update c self w2 states (ep_actions e) advantages returns (ep_probs e)
                   entropy_coef (ep_raw_actions e)))))"
proof -
  let ?e' = "e\<lparr>ep_world := w2, ep_next_state := Some next_state, ep_done := done\<rparr>"
  have "rollout_loop c (init_episode (env_reset c w)) = rollout_loop c e"
    using after_steps_loop [OF assms(1)] .
  then have loop: "rollout_loop c (init_episode (env_reset c w)) = Some (Inr ?e')"
    using rollout_loop_nan [OF assms(2-5)] by simp
  have len: "length (ep_rewards ?e') = n"
    using after_steps_init_aligned [OF assms(1)] by simp
  have fin: "finish_episode c self episode max_episodes ?e' =
               bind_res (critic_scalar c w2 next_state) (\<lambda>next_value_learned.
               bind_res (compute_advantages self (ep_rewards e)
                           (ep_values_learned e @ [next_value_learned]) (ep_dones e))
                 (\<lambda>(advantages, returns).
               bind_res (update_entropy_coef self episode max_episodes) (\<lambda>entropy_coef.
               bind_res (np_vstack (ep_states e)) (\<lambda>states.
                 update c self w2 states (ep_actions e) advantages returns (ep_probs e)
                   entropy_coef (ep_raw_actions e)))))"
    using finish_episode_unfold [of ?e' next_state c self episode max_episodes] by simp
  show ?thesis
    by (rule exI [of _ ?e']) (use loop len fin in simp)
qed

theorem nan_abort_drops_step_and_bootstraps_on_nan_state_witness:
  "after_steps 1 nan_run (init_episode (env_reset nan_run 0)) = Some nan_run_first
   \<and> \<not> ep_done nan_run_first
   \<and> actor_sample nan_run (ep_world nan_run_first) (ep_state nan_run_first) = (((), Fin 0, ()), 1)
   \<and> env_step nan_run 1 () = (([NaN, Fin 5], 1, False), 2)
   \<and> list_ex is_nan [NaN, Fin 5]
   \<and> rollout_loop nan_run (init_episode (env_reset nan_run 0))
       = Some (Inr (nan_run_first\<lparr>ep_world := 2, ep_next_state := Some [NaN, Fin 5]\<rparr>))
   \<and> critic_scalar nan_run 2 [NaN, Fin 5] = Inr 5"
proof -
  obtain e' where
    l: "rollout_loop nan_run (init_episode (env_reset nan_run 0)) = Some (Inr e')"
    using nan_abort_drops_step_and_bootstraps_on_nan_state [OF nan_run_after1 nan_run_facts(1-4)] by blast
  have "rollout_loop nan_run (init_episode (env_reset nan_run 0)) = rollout_loop nan_run nan_run_first"
    using after_steps_loop [OF nan_run_after1] .
  also have "\<dots> = Some (Inr (nan_run_first\<lparr>ep_world := 2, ep_next_state := Some [NaN, Fin 5],
                                   ep_done := False\<rparr>))"
    using rollout_loop_nan [OF nan_run_facts(1-4)] .
  also have "nan_run_first\<lparr>ep_world := 2, ep_next_state := Some [NaN, Fin 5], ep_done := False\<rparr>
               = nan_run_first\<lparr>ep_world := 2, ep_next_state := Some [NaN, Fin 5]\<rparr>"
    by (simp add: nan_run_first_def)
  finally show ?thesis
    using l nan_run_after1 nan_run_facts by simp
qed


section \<open>Concrete episodes, and advantages that are all equal\<close>








end
